theory Spec2Isabelle
  imports Complex_Main "HOL-Library.Word" "HOL-Library.AList"
begin

unbundle bit_operations_syntax

section \<open>Ghost files (ghost\_manager.py)\<close>

text \<open>
  A frame is a Python dict; the ghost engine only ever reads the two keys
  \<^verbatim>\<open>timer_value\<close> and \<^verbatim>\<open>race_completion_pct\<close> through \<^verbatim>\<open>dict.get\<close>, so an absent
  key and a null value are the same \<open>None\<close>. A frame of a run is any extension of
  the record \<open>entry\<close>; an entry of \<^verbatim>\<open>best_splits\<close> is the record itself.
  Timers are Python integers. A progress is a finite double, which is a rational
  number, so every comparison of two progress values is exact. A progress of a
  run that is NaN or infinite is \<open>None\<close> as well: the recomputation reads the
  progress of a run only in \<^verbatim>\<open>_frames_in_region\<close>, where such a frame is in no
  region, as a frame without progress is.
\<close>

record entry =
  timer_value :: "int option"
  race_completion_pct :: "rat option"

text \<open>A configured split: \<^verbatim>\<open>{"name": ..., "race_completion": ...}\<close>, either key may be absent.\<close>

record split_cfg =
  name :: "string option"
  race_completion :: "rat option"

text \<open>The exceptions that leave the functions modelled here.\<close>

datatype error =
    FileNotFoundError
  | OSError
  | UnicodeDecodeError
  | JSONDecodeError
  | MissingKey string
  | TypeError
  | AttributeError
  | KeyError
  | OverflowError
  | ValueError


text \<open>\<^verbatim>\<open>s.get("race_completion", 0.0)\<close> and \<^verbatim>\<open>sp.get("name", "")\<close>.\<close>

definition get_race_completion :: "split_cfg \<Rightarrow> rat" where
  "get_race_completion s = (case race_completion s of None \<Rightarrow> 0 | Some r \<Rightarrow> r)"

definition get_name :: "split_cfg \<Rightarrow> string" where
  "get_name s = (case name s of None \<Rightarrow> [] | Some n \<Rightarrow> n)"

subsection \<open>Region boundaries\<close>

text \<open>
  The loop \<^verbatim>\<open>for sp in sorted_splits: ... prev = end\<close> followed by the final
  \<^verbatim>\<open>boundaries.append((prev, 100.0, "Finish"))\<close>.
\<close>

fun build_boundaries :: "rat \<Rightarrow> split_cfg list \<Rightarrow> (rat \<times> rat \<times> string) list" where
  "build_boundaries prev [] = [(prev, 100, ''Finish'')]"
| "build_boundaries prev (sp # sps) =
     (prev, get_race_completion sp, get_name sp) # build_boundaries (get_race_completion sp) sps"

text \<open>Python's \<^verbatim>\<open>sorted\<close> is stable, as is \<open>sort_key\<close>.\<close>

definition boundaries :: "split_cfg list \<Rightarrow> (rat \<times> rat \<times> string) list" where
  "boundaries splits =
     (let sorted_splits = sort_key get_race_completion splits
      in if sorted_splits = [] then [(0, 100, ''Full Run'')]
         else build_boundaries 0 sorted_splits)"

subsection \<open>The helpers of \<^verbatim>\<open>_compute_best_splits\<close>\<close>

text \<open>\<^verbatim>\<open>_slim(frames, timer_offset)\<close>: frames without a timer are skipped.\<close>

fun slim :: "'a entry_scheme list \<Rightarrow> int \<Rightarrow> entry list" where
  "slim [] timer_offset = []"
| "slim (f # fs) timer_offset =
     (case timer_value f of
        None \<Rightarrow> slim fs timer_offset
      | Some tv \<Rightarrow> \<lparr>timer_value = Some (tv + timer_offset),
                   race_completion_pct = race_completion_pct f\<rparr> # slim fs timer_offset)"

definition in_region :: "rat \<Rightarrow> rat \<Rightarrow> 'a entry_scheme \<Rightarrow> bool" where
  "in_region start_pct end_pct f =
     (case race_completion_pct f of None \<Rightarrow> False | Some p \<Rightarrow> start_pct \<le> p \<and> p \<le> end_pct)"

definition frames_in_region :: "'a entry_scheme list \<Rightarrow> rat \<Rightarrow> rat \<Rightarrow> 'a entry_scheme list" where
  "frames_in_region frames start_pct end_pct = filter (in_region start_pct end_pct) frames"

text \<open>
  The frames \<^verbatim>\<open>_split_timer\<close> looks at have both keys; \<open>timed\<close> pairs the timer
  with the progress of such a frame.
\<close>

definition timed :: "'a entry_scheme \<Rightarrow> (int \<times> rat) option" where
  "timed f = (case race_completion_pct f of
                None \<Rightarrow> None
              | Some p \<Rightarrow> (case timer_value f of None \<Rightarrow> None | Some tv \<Rightarrow> Some (tv, p)))"

text \<open>
  The last line of \<^verbatim>\<open>_split_timer\<close> computes
  \<^verbatim>\<open>int(f0_tv + ((at_pct - p0) / (p1 - p0)) * (f1_tv - f0_tv))\<close> in binary floating
  point: the operands are converted and every operation is rounded, and the
  conversions raise for values beyond the range of a double. That arithmetic is
  not defined here. It is a parameter of the model: a function from the two
  frames and the boundary to the integer computed or the exception raised.
\<close>

type_synonym interp_int = "int \<times> rat \<Rightarrow> int \<times> rat \<Rightarrow> rat \<Rightarrow> error + int"

definition split_timer ::
  "interp_int \<Rightarrow> 'a entry_scheme list \<Rightarrow> rat \<Rightarrow> error + int option" where
  "split_timer interp frames at_pct =
     (let before_fs = filter (\<lambda>f. snd f \<le> at_pct) (List.map_filter timed frames);
          after_fs = filter (\<lambda>f. at_pct \<le> snd f) (List.map_filter timed frames)
      in if before_fs = [] \<and> after_fs = [] then Inr None
         else if before_fs = [] then Inr (Some (fst (hd after_fs)))
         else if after_fs = [] then Inr (Some (fst (last before_fs)))
         else let f0 = last before_fs; f1 = hd after_fs
              in if snd f0 = snd f1 then Inr (Some (fst f0))
                 else (case interp f0 f1 at_pct of Inl e \<Rightarrow> Inl e | Inr v \<Rightarrow> Inr (Some v)))"

subsection \<open>\<^verbatim>\<open>_compute_best_splits\<close>\<close>

text \<open>\<^verbatim>\<open>_split_timer(new_region, start_pct) or 0\<close>.\<close>

definition offset_time :: "interp_int \<Rightarrow> 'a entry_scheme list \<Rightarrow> rat \<Rightarrow> error + int" where
  "offset_time interp new_region start_pct =
     (case split_timer interp new_region start_pct of
        Inl e \<Rightarrow> Inl e
      | Inr None \<Rightarrow> Inr 0
      | Inr (Some v) \<Rightarrow> Inr v)"

text \<open>
  The per-region loop, with \<open>assembled_best\<close> as the accumulator. An exception of
  the float arithmetic ends the loop.
\<close>

fun region_loop ::
  "interp_int \<Rightarrow> entry list \<Rightarrow> 'a entry_scheme list \<Rightarrow> (rat \<times> rat \<times> string) list
     \<Rightarrow> entry list \<Rightarrow> error + entry list" where
  "region_loop interp old_best new_frames [] assembled_best = Inr assembled_best"
| "region_loop interp old_best new_frames ((start_pct, end_pct, region_name) # bs) assembled_best =
     (let new_region = frames_in_region new_frames start_pct end_pct;
          old_region = frames_in_region old_best start_pct end_pct
      in case split_timer interp new_region end_pct of
           Inl e \<Rightarrow> Inl e
         | Inr new_time \<Rightarrow>
            (case split_timer interp old_region end_pct of
               Inl e \<Rightarrow> Inl e
             | Inr old_time \<Rightarrow>
                (case new_time of
                   None \<Rightarrow> region_loop interp old_best new_frames bs
                             (assembled_best @ slim old_region 0)
                 | Some nt \<Rightarrow>
                    (if (case old_time of None \<Rightarrow> True | Some ot \<Rightarrow> nt \<le> ot)
                     then (case offset_time interp new_region start_pct of
                             Inl e \<Rightarrow> Inl e
                           | Inr off \<Rightarrow> region_loop interp old_best new_frames bs
                                         (assembled_best @ slim new_region (- off)))
                     else region_loop interp old_best new_frames bs
                            (assembled_best @ slim old_region 0)))))"

definition compute_best_splits ::
  "interp_int \<Rightarrow> entry list \<Rightarrow> 'a entry_scheme list \<Rightarrow> split_cfg list \<Rightarrow> error + entry list" where
  "compute_best_splits interp old_best new_frames splits =
     region_loop interp old_best new_frames (boundaries splits) []"

subsection \<open>JSON values, the ghost document and the manager\<close>

text \<open>
  What \<^verbatim>\<open>json.load\<close> returns for a file. \<open>Scalar\<close> is null, a boolean or a number;
  \<open>Text\<close> is a string; \<open>Array\<close> is a list, of which only the string elements are
  kept (they decide \<^verbatim>\<open>key in data\<close>); \<open>Object\<close> is a dict. Of a dict the three
  keys \<^verbatim>\<open>splits\<close>, \<^verbatim>\<open>best_splits\<close> and \<^verbatim>\<open>race_data\<close> are modelled, each absent, null,
  or a list of the documented shape. A dict in which one of these keys holds a
  value of another shape has no value in this type. \<open>'f\<close> is the type of the
  frames of \<^verbatim>\<open>race_data\<close>.
\<close>

datatype 'a field = Absent | Null | Held 'a

record 'f ghost =
  splits :: "split_cfg list field"
  best_splits :: "entry list field"
  race_data :: "'f list field"

datatype 'f json_value = Scalar | Text string | Array "string list" | Object "'f ghost"

definition EMPTY_GHOST :: "'f ghost" where
  "EMPTY_GHOST = \<lparr>splits = Held [], best_splits = Held [], race_data = Held []\<rparr>"

text \<open>
  The active ghost is whatever was assigned to \<^verbatim>\<open>_active_ghost\<close>; \<^verbatim>\<open>load_ghost\<close>
  assigns the parsed value before it has looked at \<^verbatim>\<open>race_data\<close>.
\<close>

record 'f manager =
  active_ghost :: "'f json_value option"
  active_path :: "string option"

text \<open>\<^verbatim>\<open>d.get(key, [])\<close> on a dict: the empty list for an absent key, \<open>None\<close> for null.\<close>

fun get_or_empty :: "'a list field \<Rightarrow> 'a list option" where
  "get_or_empty Absent = Some []"
| "get_or_empty Null = None"
| "get_or_empty (Held xs) = Some xs"

subsection \<open>\<^verbatim>\<open>interpolate_ghost_timer\<close>\<close>











subsection \<open>Files\<close>

text \<open>
  A file has its permissions and its content: \<open>Undecodable\<close> when the bytes are
  not UTF-8 (\<^verbatim>\<open>fh.read()\<close> raises \<^verbatim>\<open>UnicodeDecodeError\<close>), \<open>NotJson\<close> when
  \<^verbatim>\<open>json.load\<close> raises \<^verbatim>\<open>JSONDecodeError\<close>, and \<open>Json v\<close> when it returns \<open>v\<close>.
  Opening a file that is not \<open>readable\<close> for reading, or one that is not
  \<open>writable\<close> for writing, raises \<^verbatim>\<open>OSError\<close>. The file system maps a path to the
  file there, if any (\<^verbatim>\<open>os.path.isfile\<close>), and says with \<open>can_create\<close> whether a
  file can be made at a path that has none (\<^verbatim>\<open>os.makedirs\<close> and \<^verbatim>\<open>open\<close> succeed).
  Writing changes the content of a file and not its permissions; a file made by
  a write is readable and writable. \<^verbatim>\<open>json.dump\<close> followed by \<^verbatim>\<open>json.load\<close>
  returns the document written.
\<close>

datatype 'f file_content = Undecodable | NotJson | Json "'f json_value"

record 'f ghost_file =
  readable :: bool
  writable :: bool
  content :: "'f file_content"

record 'f file_system =
  files :: "string \<Rightarrow> 'f ghost_file option"
  can_create :: "string \<Rightarrow> bool"

text \<open>\<^verbatim>\<open>with open(filepath, "r", encoding="utf-8") as fh: json.load(fh)\<close>.\<close>

definition read_json :: "'f ghost_file \<Rightarrow> error + 'f json_value" where
  "read_json f =
     (if \<not> readable f then Inl OSError
      else case content f of
             Undecodable \<Rightarrow> Inl UnicodeDecodeError
           | NotJson \<Rightarrow> Inl JSONDecodeError
           | Json v \<Rightarrow> Inr v)"

text \<open>\<^verbatim>\<open>os.makedirs(...); with open(filepath, "w", ...) as fh: json.dump(ghost, fh)\<close>.\<close>

definition write_json :: "'f file_system \<Rightarrow> string \<Rightarrow> 'f ghost \<Rightarrow> error + 'f file_system" where
  "write_json fs filepath ghost =
     (case files fs filepath of
        None \<Rightarrow>
          if can_create fs filepath
          then Inr (fs\<lparr>files := (files fs)(filepath \<mapsto>
                      \<lparr>readable = True, writable = True, content = Json (Object ghost)\<rparr>)\<rparr>)
          else Inl OSError
      | Some f \<Rightarrow>
          if writable f
          then Inr (fs\<lparr>files := (files fs)(filepath \<mapsto> f\<lparr>content := Json (Object ghost)\<rparr>)\<rparr>)
          else Inl OSError)"

subsection \<open>\<^verbatim>\<open>load_ghost\<close>\<close>

text \<open>\<^verbatim>\<open>key in data\<close>: a substring test on a string, membership on a list, a key test
  on a dict, and a \<^verbatim>\<open>TypeError\<close> on anything else.\<close>

fun starts_with :: "string \<Rightarrow> string \<Rightarrow> bool" where
  "starts_with s [] = True"
| "starts_with [] (k # ks) = False"
| "starts_with (c # s) (k # ks) = (c = k \<and> starts_with s ks)"

fun substring_in :: "string \<Rightarrow> string \<Rightarrow> bool" where
  "substring_in k [] = (k = [])"
| "substring_in k (c # s) = (starts_with (c # s) k \<or> substring_in k s)"

definition has_key :: "'f ghost \<Rightarrow> string \<Rightarrow> bool" where
  "has_key g k =
     (if k = ''splits'' then splits g \<noteq> Absent
      else if k = ''best_splits'' then best_splits g \<noteq> Absent
      else if k = ''race_data'' then race_data g \<noteq> Absent
      else False)"

fun key_in :: "string \<Rightarrow> 'f json_value \<Rightarrow> error + bool" where
  "key_in k Scalar = Inl TypeError"
| "key_in k (Text s) = Inr (substring_in k s)"
| "key_in k (Array xs) = Inr (k \<in> set xs)"
| "key_in k (Object g) = Inr (has_key g k)"

text \<open>The validation loop over the required keys.\<close>

fun check_required :: "'f json_value \<Rightarrow> string list \<Rightarrow> error option" where
  "check_required data [] = None"
| "check_required data (required_key # ks) =
     (case key_in required_key data of
        Inl e \<Rightarrow> Some e
      | Inr present \<Rightarrow> if \<not> present then Some (MissingKey required_key)
                       else check_required data ks)"

text \<open>
  \<^verbatim>\<open>len(data['race_data'])\<close> in the final \<^verbatim>\<open>print\<close>: indexing a string or a list
  with a key raises \<^verbatim>\<open>TypeError\<close>, as does \<^verbatim>\<open>len(None)\<close>.
\<close>

fun race_data_len :: "'f json_value \<Rightarrow> error + nat" where
  "race_data_len (Object g) =
     (case race_data g of
        Held frames \<Rightarrow> Inr (length frames)
      | Null \<Rightarrow> Inl TypeError
      | Absent \<Rightarrow> Inl KeyError)"
| "race_data_len other = Inl TypeError"

text \<open>The value returned or the exception raised, and the manager afterwards.\<close>

definition load_ghost ::
  "'f file_system \<Rightarrow> 'f manager \<Rightarrow> string \<Rightarrow> (error + 'f json_value) \<times> 'f manager" where
  "load_ghost fs m filepath =
     (case files fs filepath of
        None \<Rightarrow> (Inl FileNotFoundError, m)
      | Some f \<Rightarrow>
          (case read_json f of
             Inl e \<Rightarrow> (Inl e, m)
           | Inr data \<Rightarrow>
               (case check_required data [''splits'', ''best_splits'', ''race_data''] of
                  Some e \<Rightarrow> (Inl e, m)
                | None \<Rightarrow>
                    (let m = m\<lparr>active_ghost := Some data, active_path := Some filepath\<rparr>
                     in case race_data_len data of
                          Inl e \<Rightarrow> (Inl e, m)
                        | Inr n \<Rightarrow> (Inr data, m)))))"

subsection \<open>\<^verbatim>\<open>create_ghost\<close> and \<^verbatim>\<open>save_race_data\<close>\<close>

text \<open>\<^verbatim>\<open>create_ghost\<close>: \<^verbatim>\<open>splits_config if splits_config else []\<close>.\<close>

definition create_ghost ::
  "'f file_system \<Rightarrow> 'f manager \<Rightarrow> string \<Rightarrow> split_cfg list option
     \<Rightarrow> error + ('f ghost \<times> 'f file_system \<times> 'f manager)" where
  "create_ghost fs m filepath splits_config =
     (let ghost = EMPTY_GHOST\<lparr>splits := Held (case splits_config of None \<Rightarrow> [] | Some s \<Rightarrow> s)\<rparr>
      in case write_json fs filepath ghost of
           Inl e \<Rightarrow> Inl e
         | Inr fs' \<Rightarrow> Inr (ghost, fs',
                           m\<lparr>active_ghost := Some (Object ghost), active_path := Some filepath\<rparr>))"

text \<open>
  The load-or-initialise step of \<^verbatim>\<open>save_race_data\<close>: only \<^verbatim>\<open>JSONDecodeError\<close> and
  \<^verbatim>\<open>OSError\<close> are caught; any other exception leaves the function.
\<close>

fun load_or_initialise :: "'f ghost_file option \<Rightarrow> error + 'f json_value" where
  "load_or_initialise None = Inr (Object EMPTY_GHOST)"
| "load_or_initialise (Some f) =
     (case read_json f of
        Inr ghost \<Rightarrow> Inr ghost
      | Inl e \<Rightarrow> (if e = JSONDecodeError \<or> e = OSError then Inr (Object EMPTY_GHOST)
                   else Inl e))"

text \<open>
  \<^verbatim>\<open>_compute_best_splits\<close> as \<^verbatim>\<open>save_race_data\<close> calls it, with what
  \<^verbatim>\<open>ghost.get\<close> returned: \<^verbatim>\<open>sorted(None)\<close> raises \<^verbatim>\<open>TypeError\<close>, and so does the
  first pass over an old best list that is \<^verbatim>\<open>None\<close>.
\<close>

definition recompute ::
  "interp_int \<Rightarrow> entry list option \<Rightarrow> 'a entry_scheme list \<Rightarrow> split_cfg list option
     \<Rightarrow> error + entry list" where
  "recompute interp old_best race_frames cfg_opt =
     (case cfg_opt of
        None \<Rightarrow> Inl TypeError
      | Some cfg \<Rightarrow>
          (case old_best of
             None \<Rightarrow> Inl TypeError
           | Some old \<Rightarrow> compute_best_splits interp old race_frames cfg))"

definition save_race_data ::
  "interp_int \<Rightarrow> 'a entry_scheme file_system \<Rightarrow> 'a entry_scheme manager \<Rightarrow> string
     \<Rightarrow> 'a entry_scheme list
     \<Rightarrow> error + ('a entry_scheme file_system \<times> 'a entry_scheme manager)" where
  "save_race_data interp fs m filepath race_frames =
     (case load_or_initialise (files fs filepath) of
        Inl e \<Rightarrow> Inl e
      | Inr (Object ghost) \<Rightarrow>
          (let cfg = get_or_empty (splits ghost);
               old_best = get_or_empty (best_splits ghost);
               ghost = ghost\<lparr>race_data := Held race_frames\<rparr>
           in case recompute interp old_best race_frames cfg of
                Inl e \<Rightarrow> Inl e
              | Inr best \<Rightarrow>
                  (let ghost = ghost\<lparr>best_splits := Held best\<rparr>
                   in case write_json fs filepath ghost of
                        Inl e \<Rightarrow> Inl e
                      | Inr fs' \<Rightarrow>
                          Inr (fs', m\<lparr>active_ghost := Some (Object ghost),
                                     active_path := Some filepath\<rparr>)))
      | Inr other \<Rightarrow> Inl AttributeError)"





text \<open>What one iteration of the per-region loop appends for a region.\<close>

definition region_block ::
  "interp_int \<Rightarrow> entry list \<Rightarrow> 'a entry_scheme list \<Rightarrow> rat \<times> rat \<times> string
     \<Rightarrow> error + entry list" where
  "region_block interp old_best new_frames region =
     region_loop interp old_best new_frames [region] []"

section \<open>Reading the game process (data\_extractor.py)\<close>

subsection \<open>Process memory\<close>

text \<open>
  The memory of the target process maps an address to a byte, or to \<open>None\<close> where
  no page is mapped; a read that touches an unmapped address raises in pymem.
  \<^verbatim>\<open>read_int\<close> reads a signed 32-bit and \<^verbatim>\<open>read_longlong\<close> a signed 64-bit
  little-endian integer.
\<close>

type_synonym memory = "int \<Rightarrow> 8 word option"

definition read_bytes :: "memory \<Rightarrow> int \<Rightarrow> nat \<Rightarrow> 8 word list option" where
  "read_bytes mem addr n = those (map (\<lambda>i. mem (addr + int i)) [0..<n])"

definition le_uint :: "8 word list \<Rightarrow> int" where
  "le_uint bs = foldr (\<lambda>b acc. uint b + 256 * acc) bs 0"

definition to_signed :: "nat \<Rightarrow> int \<Rightarrow> int" where
  "to_signed bits v = (if 2 ^ (bits - 1) \<le> v then v - 2 ^ bits else v)"

definition read_int :: "memory \<Rightarrow> int \<Rightarrow> int option" where
  "read_int mem addr = map_option (\<lambda>bs. to_signed 32 (le_uint bs)) (read_bytes mem addr 4)"

definition read_longlong :: "memory \<Rightarrow> int \<Rightarrow> int option" where
  "read_longlong mem addr = map_option (\<lambda>bs. to_signed 64 (le_uint bs)) (read_bytes mem addr 8)"

text \<open>
  \<^verbatim>\<open>struct.unpack("<f", raw)[0]\<close>: a single-precision float, kept as its 32 bits.
\<close>

definition read_float :: "memory \<Rightarrow> int \<Rightarrow> 32 word option" where
  "read_float mem addr = map_option (\<lambda>bs. word_of_int (le_uint bs)) (read_bytes mem addr 4)"

subsection \<open>The extractor\<close>

datatype pyval = PyInt int | PyFloat "32 word"

text \<open>
  A snapshot is a Python dict from key to value or \<^verbatim>\<open>None\<close>, in insertion order.
  \<open>map_of\<close> looks a key up and \<open>AList.update\<close> is the assignment
  \<^verbatim>\<open>snapshot[key] = value\<close>.
\<close>

type_synonym snapshot = "(string \<times> pyval option) list"

record extractor =
  attached :: bool
  p_race_data_slot :: "int option"
  p_checkpoint_slot :: "int option"
  race_data_ptr :: int
  checkpoint_ptr :: int
  last_timer_value :: int

definition OFFSET_RACE_TIMER :: int where "OFFSET_RACE_TIMER = 0xA0"
definition OFFSET_RACE_PROGRESS :: int where "OFFSET_RACE_PROGRESS = 0x1D8"
definition OFFSET_RPM :: int where "OFFSET_RPM = 0x1B8"
definition OFFSET_GEAR :: int where "OFFSET_GEAR = 0xA0"

text \<open>
  Every reader catches every exception and returns \<^verbatim>\<open>None\<close>; with no pymem handle
  (\<open>attached\<close> false) the attribute access raises and is caught as well.
\<close>

definition read_race_data_ptr :: "memory \<Rightarrow> extractor \<Rightarrow> int" where
  "read_race_data_ptr mem st =
     (case p_race_data_slot st of
        None \<Rightarrow> 0
      | Some slot \<Rightarrow> if \<not> attached st then 0
                     else (case read_longlong mem slot of None \<Rightarrow> 0 | Some v \<Rightarrow> v))"

definition read_checkpoint_ptr :: "memory \<Rightarrow> extractor \<Rightarrow> int" where
  "read_checkpoint_ptr mem st =
     (case p_checkpoint_slot st of
        None \<Rightarrow> 0
      | Some slot \<Rightarrow> if \<not> attached st then 0
                     else (case read_longlong mem slot of None \<Rightarrow> 0 | Some v \<Rightarrow> v))"

definition read_timer :: "memory \<Rightarrow> extractor \<Rightarrow> int \<Rightarrow> int option" where
  "read_timer mem st base =
     (if attached st then read_int mem (base + OFFSET_RACE_TIMER) else None)"

definition read_race_progress :: "memory \<Rightarrow> extractor \<Rightarrow> int \<Rightarrow> pyval option" where
  "read_race_progress mem st base =
     (if attached st then map_option PyFloat (read_float mem (base + OFFSET_RACE_PROGRESS))
      else None)"

definition read_rpm :: "memory \<Rightarrow> extractor \<Rightarrow> int \<Rightarrow> pyval option" where
  "read_rpm mem st base =
     (if attached st then map_option PyFloat (read_float mem (base + OFFSET_RPM)) else None)"

definition read_gear :: "memory \<Rightarrow> extractor \<Rightarrow> int \<Rightarrow> pyval option" where
  "read_gear mem st base =
     (if attached st then map_option PyInt (read_int mem (base + OFFSET_GEAR)) else None)"

definition read_checkpoint :: "memory \<Rightarrow> extractor \<Rightarrow> pyval option" where
  "read_checkpoint mem st =
     (let cp_base = read_checkpoint_ptr mem st
      in if cp_base = 0 then None
         else if attached st then map_option PyInt (read_int mem cp_base) else None)"

text \<open>The readers whose offsets are not known yet return \<^verbatim>\<open>None\<close>.\<close>

definition read_velocity :: "int \<Rightarrow> pyval option" where "read_velocity base = None"
definition read_car_angle :: "int \<Rightarrow> pyval option" where "read_car_angle base = None"
definition read_car_position :: "int \<Rightarrow> pyval option" where "read_car_position base = None"
definition read_camera_angle :: "int \<Rightarrow> pyval option" where "read_camera_angle base = None"
definition read_camera_position :: "int \<Rightarrow> pyval option" where "read_camera_position base = None"
definition read_nitro_bar :: "int \<Rightarrow> pyval option" where "read_nitro_bar base = None"
definition read_nitro_state :: "int \<Rightarrow> pyval option" where "read_nitro_state base = None"
definition read_drift_state :: "int \<Rightarrow> pyval option" where "read_drift_state base = None"
definition read_360_state :: "int \<Rightarrow> pyval option" where "read_360_state base = None"
definition read_acceleration :: "int \<Rightarrow> pyval option" where "read_acceleration base = None"

text \<open>
  \<^verbatim>\<open>_has_physics_update\<close>: the answer and the updated extractor. The timer is the
  integer \<^verbatim>\<open>read_int\<close> returned, or \<^verbatim>\<open>None\<close>.
\<close>

definition has_physics_update :: "extractor \<Rightarrow> int option \<Rightarrow> bool \<times> extractor" where
  "has_physics_update st current_timer =
     (case current_timer of
        None \<Rightarrow> (False, st)
      | Some t \<Rightarrow> (t \<noteq> last_timer_value st, st\<lparr>last_timer_value := t\<rparr>))"

definition light_snapshot :: "int option \<Rightarrow> pyval option \<Rightarrow> snapshot" where
  "light_snapshot timer progress =
     [(''timer_value'', map_option PyInt timer),
      (''race_completion_pct'', progress),
      (''velocity'', None),
      (''car_angle'', None),
      (''car_position'', None),
      (''camera_angle'', None),
      (''camera_position'', None),
      (''checkpoint'', None),
      (''nitro_bar_pct'', None),
      (''nitro_state'', None),
      (''drift_state'', None),
      (''360_state'', None),
      (''gear'', None),
      (''engine_rpm'', None),
      (''acceleration'', None)]"

definition populate_full :: "memory \<Rightarrow> extractor \<Rightarrow> int \<Rightarrow> snapshot \<Rightarrow> snapshot" where
  "populate_full mem st base snap =
     (let snap = AList.update ''velocity'' (read_velocity base) snap;
          snap = AList.update ''car_angle'' (read_car_angle base) snap;
          snap = AList.update ''car_position'' (read_car_position base) snap;
          snap = AList.update ''camera_angle'' (read_camera_angle base) snap;
          snap = AList.update ''camera_position'' (read_camera_position base) snap;
          snap = AList.update ''checkpoint'' (read_checkpoint mem st) snap;
          snap = AList.update ''nitro_bar_pct'' (read_nitro_bar base) snap;
          snap = AList.update ''nitro_state'' (read_nitro_state base) snap;
          snap = AList.update ''drift_state'' (read_drift_state base) snap;
          snap = AList.update ''360_state'' (read_360_state base) snap;
          snap = AList.update ''gear'' (read_gear mem st base) snap;
          snap = AList.update ''engine_rpm'' (read_rpm mem st base) snap;
          snap = AList.update ''acceleration'' (read_acceleration base) snap
      in snap)"

definition get_snapshot :: "memory \<Rightarrow> extractor \<Rightarrow> snapshot \<times> extractor" where
  "get_snapshot mem st =
     (let base = read_race_data_ptr mem st;
          st = st\<lparr>race_data_ptr := base\<rparr>;
          timer = (if base \<noteq> 0 then read_timer mem st base else None);
          progress = (if base \<noteq> 0 then read_race_progress mem st base else None);
          snap = light_snapshot timer progress;
          (tick, st) = has_physics_update st timer
      in if tick then (populate_full mem st base snap, st) else (snap, st))"

text \<open>The full-tier keys: every key but the timer and the progress.\<close>

definition full_tier_keys :: "string list" where
  "full_tier_keys =
     [''velocity'', ''car_angle'', ''car_position'', ''camera_angle'', ''camera_position'',
      ''checkpoint'', ''nitro_bar_pct'', ''nitro_state'', ''drift_state'', ''360_state'',
      ''gear'', ''engine_rpm'', ''acceleration'']"

subsection \<open>Trampoline injection\<close>

text \<open>
  The target process as the injector sees it: its memory and the outcome of each
  kernel call. \<^verbatim>\<open>VirtualAllocEx\<close> returns \<open>alloc_result\<close> (0 when the allocation
  is denied), \<^verbatim>\<open>WriteProcessMemory\<close> at an address succeeds when \<open>write_ok\<close> holds
  there and otherwise leaves the memory as it is, and \<^verbatim>\<open>VirtualProtectEx\<close>
  succeeds when \<open>protect_ok\<close> holds.
\<close>

record target =
  memory_of :: memory
  alloc_result :: int
  write_ok :: "int \<Rightarrow> bool"
  protect_ok :: "int \<Rightarrow> bool"

datatype inject_error = MemoryError | StructError

definition le_bytes32 :: "32 word \<Rightarrow> 8 word list" where
  "le_bytes32 w = map (\<lambda>i. ucast (drop_bit (8 * i) w)) [0..<4]"

text \<open>\<^verbatim>\<open>struct.pack("<i", v)\<close> raises \<^verbatim>\<open>struct.error\<close> outside the signed 32-bit range.\<close>

definition pack_i :: "int \<Rightarrow> inject_error + 8 word list" where
  "pack_i v = (if - (2 ^ 31) \<le> v \<and> v < 2 ^ 31 then Inr (le_bytes32 (word_of_int v))
               else Inl StructError)"

definition write_process_memory :: "target \<Rightarrow> int \<Rightarrow> 8 word list \<Rightarrow> bool \<times> target" where
  "write_process_memory t addr data =
     (if write_ok t addr
      then (True, t\<lparr>memory_of := (\<lambda>a. if addr \<le> a \<and> a < addr + int (length data)
                                          then Some (data ! nat (a - addr))
                                          else memory_of t a)\<rparr>)
      else (False, t))"

definition AOB_RACE_TIMER :: "8 word list" where
  "AOB_RACE_TIMER = [0x48, 0x01, 0x87, 0xA0, 0x00, 0x00, 0x00]"

text \<open>
  \<^verbatim>\<open>_inject_pointer_capture\<close>: the result, or the exception raised, and the target
  process afterwards. The values the kernel calls return are bound where the
  source receives them; the source reads none of them but the allocation's.
\<close>

definition inject_pointer_capture ::
  "target \<Rightarrow> int \<Rightarrow> 8 word list \<Rightarrow> (inject_error + int) \<times> target" where
  "inject_pointer_capture t aob_address original_bytes =
     (let orig_len = int (length original_bytes);
          alloc_size = 128;
          trampoline_addr = alloc_result t
      in if trampoline_addr = 0 then (Inl MemoryError, t)
         else
          (let pointer_slot_addr = trampoline_addr + alloc_size - 8;
               ret_addr = aob_address + orig_len;
               shellcode = original_bytes @ [0x53] @ [0x48, 0x89, 0xFB]
                             @ [0x48, 0x89, 0x1C, 0x25]
                             @ le_bytes32 (word_of_int (pointer_slot_addr AND 0xFFFFFFFF))
                             @ [0x5B];
               rel_jmp = ret_addr - (trampoline_addr + int (length shellcode) + 5)
           in case pack_i rel_jmp of
                Inl e \<Rightarrow> (Inl e, t)
              | Inr rel \<Rightarrow>
                 (let shellcode = shellcode @ [0xE9] @ rel;
                      (written_code, t) = write_process_memory t trampoline_addr shellcode;
                      (written_slot, t) = write_process_memory t pointer_slot_addr (replicate 8 0);
                      relaxed = protect_ok t aob_address;
                      jmp_rel = trampoline_addr - (aob_address + 5)
                  in case pack_i jmp_rel of
                       Inl e \<Rightarrow> (Inl e, t)
                     | Inr jmp \<Rightarrow>
                        (let patch = [0xE9] @ jmp @ replicate (nat (orig_len - 5)) 0x90;
                             (written_patch, t) = write_process_memory t aob_address patch;
                             restored = protect_ok t aob_address
                         in (Inr pointer_slot_addr, t)))))"

subsection \<open>What one call of \<^verbatim>\<open>get_snapshot\<close> reads\<close>

text \<open>The base pointer and the timer that a call of \<^verbatim>\<open>get_snapshot\<close> reads first.\<close>

definition current_base :: "memory \<Rightarrow> extractor \<Rightarrow> int" where
  "current_base mem st = read_race_data_ptr mem st"

definition current_timer :: "memory \<Rightarrow> extractor \<Rightarrow> int option" where
  "current_timer mem st =
     (let base = read_race_data_ptr mem st
      in if base \<noteq> 0 then read_timer mem (st\<lparr>race_data_ptr := base\<rparr>) base else None)"

text \<open>The reader that the source assigns to each full-tier key.\<close>

definition reader_of :: "memory \<Rightarrow> extractor \<Rightarrow> int \<Rightarrow> string \<Rightarrow> pyval option" where
  "reader_of mem st base k =
     (if k = ''velocity'' then read_velocity base
      else if k = ''car_angle'' then read_car_angle base
      else if k = ''car_position'' then read_car_position base
      else if k = ''camera_angle'' then read_camera_angle base
      else if k = ''camera_position'' then read_camera_position base
      else if k = ''checkpoint'' then read_checkpoint mem st
      else if k = ''nitro_bar_pct'' then read_nitro_bar base
      else if k = ''nitro_state'' then read_nitro_state base
      else if k = ''drift_state'' then read_drift_state base
      else if k = ''360_state'' then read_360_state base
      else if k = ''gear'' then read_gear mem st base
      else if k = ''engine_rpm'' then read_rpm mem st base
      else if k = ''acceleration'' then read_acceleration base
      else None)"

section \<open>Concrete inputs\<close>

text \<open>
  A process whose pointer slot at 0x1000 holds the base 0x2000 and whose timer at
  0x20A0 reads 5; every other byte is 0.
\<close>

definition demo_memory :: memory where
  "demo_memory = (\<lambda>a. if a = 0x1001 then Some 0x20 else if a = 0x20A0 then Some 5 else Some 0)"

definition demo_extractor :: extractor where
  "demo_extractor = \<lparr>attached = True, p_race_data_slot = Some 0x1000, p_checkpoint_slot = None,
     race_data_ptr = 0, checkpoint_ptr = 0, last_timer_value = - 1\<rparr>"

text \<open>No process attached: the extractor as \<^verbatim>\<open>__init__\<close> leaves it.\<close>

definition unmapped :: memory where
  "unmapped = (\<lambda>a. None)"

definition fresh_extractor :: extractor where
  "fresh_extractor = \<lparr>attached = False, p_race_data_slot = None, p_checkpoint_slot = None,
     race_data_ptr = 0, checkpoint_ptr = 0, last_timer_value = - 1\<rparr>"

text \<open>
  A target process that grants the allocation at 0x20000 and denies every write
  and every protection change; its memory holds the byte 0xCC everywhere.
\<close>

definition denying_target :: target where
  "denying_target = \<lparr>memory_of = (\<lambda>a. Some 0xCC), alloc_result = 0x20000,
     write_ok = (\<lambda>a. False), protect_ok = (\<lambda>a. False)\<rparr>"

text \<open>Runs and stored best splits with one split at 50 percent.\<close>

definition entry_at :: "int \<Rightarrow> rat \<Rightarrow> entry" where
  "entry_at t p = \<lparr>timer_value = Some t, race_completion_pct = Some p\<rparr>"

definition one_split :: "split_cfg list" where
  "one_split = [\<lparr>name = Some ''Split 1'', race_completion = Some 50\<rparr>]"

definition first_run :: "entry list" where
  "first_run = [entry_at 0 0, entry_at 1000 50, entry_at 2200 100]"

definition slower_run :: "entry list" where
  "slower_run = [entry_at 0 0, entry_at 1100 50, entry_at 2400 100]"

definition faster_run :: "entry list" where
  "faster_run = [entry_at 0 0, entry_at 900 50, entry_at 2000 100]"

text \<open>
  The scenario of the spec: old region timers 0..1000 over progress 0..50 and
  0..1200 over 50..100, new region timers 0..900 and 0..1300.
\<close>

definition scenario_old :: "entry list" where
  "scenario_old = [entry_at 0 0, entry_at 1000 50, entry_at 0 50, entry_at 1200 100]"

definition scenario_new :: "entry list" where
  "scenario_new = [entry_at 0 0, entry_at 900 50, entry_at 0 50, entry_at 1300 100]"

text \<open>
  Arithmetic on rationals, exact where the floats of the source are rounded, to
  run the model where it needs a value for the float parameters.
\<close>

definition lerp :: "int \<times> rat \<Rightarrow> int \<times> rat \<Rightarrow> rat \<Rightarrow> rat" where
  "lerp f0 f1 at_pct =
     (let t = (at_pct - snd f0) / (snd f1 - snd f0)
      in of_int (fst f0) + t * of_int (fst f1 - fst f0))"

definition exact_interp_int :: interp_int where
  "exact_interp_int f0 f1 at_pct =
     Inr (if 0 \<le> lerp f0 f1 at_pct then \<lfloor>lerp f0 f1 at_pct\<rfloor> else \<lceil>lerp f0 f1 at_pct\<rceil>)"



text \<open>Ghost files, file systems and managers.\<close>

definition fresh_manager :: "entry manager" where
  "fresh_manager = \<lparr>active_ghost = None, active_path = None\<rparr>"

definition stored_doc :: "entry ghost" where
  "stored_doc = \<lparr>splits = Held one_split, best_splits = Held scenario_old,
                  race_data = Held first_run\<rparr>"

definition stored_manager :: "entry manager" where
  "stored_manager =
     \<lparr>active_ghost = Some (Object stored_doc), active_path = Some ''ghost.json''\<rparr>"


text \<open>A file system with one file, at \<^verbatim>\<open>ghost.json\<close>, and no room for another.\<close>

definition one_file :: "entry ghost_file \<Rightarrow> entry file_system" where
  "one_file f = \<lparr>files = (\<lambda>p. if p = ''ghost.json'' then Some f else None),
                 can_create = (\<lambda>p. False)\<rparr>"

definition plain :: "entry file_content \<Rightarrow> entry ghost_file" where
  "plain c = \<lparr>readable = True, writable = True, content = c\<rparr>"


definition stored_fs :: "entry file_system" where
  "stored_fs = one_file (plain (Json (Object stored_doc)))"

definition corrupt_fs :: "entry file_system" where
  "corrupt_fs = one_file (plain NotJson)"

definition binary_fs :: "entry file_system" where
  "binary_fs = one_file (plain Undecodable)"


text \<open>A file that may be written and not read, and one that may be read and not written.\<close>

definition write_only_fs :: "entry file_system" where
  "write_only_fs =
     one_file \<lparr>readable = False, writable = True, content = Json (Object stored_doc)\<rparr>"

definition read_only_corrupt_fs :: "entry file_system" where
  "read_only_corrupt_fs = one_file \<lparr>readable = True, writable = False, content = NotJson\<rparr>"

section \<open>Properties of the snapshot assembler\<close>

lemma readers_ignore_cache:
  "read_checkpoint mem (st\<lparr>race_data_ptr := b\<rparr>) = read_checkpoint mem st"
  "read_checkpoint mem (st\<lparr>last_timer_value := x\<rparr>) = read_checkpoint mem st"
  "read_gear mem (st\<lparr>race_data_ptr := b\<rparr>) base = read_gear mem st base"
  "read_gear mem (st\<lparr>last_timer_value := x\<rparr>) base = read_gear mem st base"
  "read_rpm mem (st\<lparr>race_data_ptr := b\<rparr>) base = read_rpm mem st base"
  "read_rpm mem (st\<lparr>last_timer_value := x\<rparr>) base = read_rpm mem st base"
  by (simp_all add: read_checkpoint_def read_checkpoint_ptr_def read_gear_def read_rpm_def
        Let_def split: option.splits)

lemma get_snapshot_no_tick:
  "current_timer mem st = None \<or> current_timer mem st = Some (last_timer_value st)
   \<Longrightarrow> fst (get_snapshot mem st) =
         light_snapshot (current_timer mem st)
           (if current_base mem st \<noteq> 0
            then read_race_progress mem (st\<lparr>race_data_ptr := current_base mem st\<rparr>)
                   (current_base mem st)
            else None)"
  by (auto simp add: get_snapshot_def current_timer_def current_base_def Let_def split_beta
        has_physics_update_def split: option.splits)

lemma get_snapshot_tick:
  "current_timer mem st = Some t \<Longrightarrow> t \<noteq> last_timer_value st
   \<Longrightarrow> fst (get_snapshot mem st) =
         populate_full mem st (current_base mem st)
           (light_snapshot (current_timer mem st)
              (if current_base mem st \<noteq> 0
               then read_race_progress mem (st\<lparr>race_data_ptr := current_base mem st\<rparr>)
                      (current_base mem st)
               else None))"
  by (auto simp add: get_snapshot_def current_timer_def current_base_def Let_def split_beta
        has_physics_update_def populate_full_def readers_ignore_cache
        split: option.splits if_splits)

text \<open>
  Claim C6. A snapshot never holds partial full-tier data. When the call detects
  no physics tick (the timer could not be read, or equals the timer of the last
  call), every full-tier key maps to \<^verbatim>\<open>None\<close>. When it detects a tick, every
  full-tier key holds what its reader returned in this call.
\<close>

theorem get_snapshot_tick_gate:
  "(current_timer mem st = None \<or> current_timer mem st = Some (last_timer_value st)
      \<longrightarrow> (\<forall>k \<in> set full_tier_keys. map_of (fst (get_snapshot mem st)) k = Some None))
   \<and> (current_timer mem st \<noteq> None \<and> current_timer mem st \<noteq> Some (last_timer_value st)
      \<longrightarrow> (\<forall>k \<in> set full_tier_keys.
             map_of (fst (get_snapshot mem st)) k
               = Some (reader_of mem st (current_base mem st) k)))"
proof (intro conjI impI)
  assume "current_timer mem st = None \<or> current_timer mem st = Some (last_timer_value st)"
  from get_snapshot_no_tick [OF this]
  show "\<forall>k \<in> set full_tier_keys. map_of (fst (get_snapshot mem st)) k = Some None"
    by (simp add: light_snapshot_def full_tier_keys_def)
next
  assume "current_timer mem st \<noteq> None \<and> current_timer mem st \<noteq> Some (last_timer_value st)"
  then obtain t where t: "current_timer mem st = Some t" "t \<noteq> last_timer_value st"
    by auto
  show "\<forall>k \<in> set full_tier_keys.
          map_of (fst (get_snapshot mem st)) k = Some (reader_of mem st (current_base mem st) k)"
    unfolding get_snapshot_tick [OF t]
    by (simp add: light_snapshot_def full_tier_keys_def populate_full_def reader_of_def
          update_conv')
qed

theorem get_snapshot_tick_gate_witness:
  "current_timer demo_memory demo_extractor = Some 5
   \<and> last_timer_value demo_extractor = - 1
   \<and> map_of (fst (get_snapshot demo_memory demo_extractor)) ''gear'' = Some (Some (PyInt 5))
   \<and> current_timer demo_memory (demo_extractor\<lparr>last_timer_value := 5\<rparr>) = Some 5
   \<and> map_of (fst (get_snapshot demo_memory (demo_extractor\<lparr>last_timer_value := 5\<rparr>))) ''gear''
       = Some None"
proof -
  have t: "current_timer demo_memory demo_extractor = Some 5"
    by (simp add: current_timer_def demo_memory_def demo_extractor_def read_race_data_ptr_def
          read_longlong_def read_bytes_def le_uint_def to_signed_def read_timer_def read_int_def
          OFFSET_RACE_TIMER_def upt_rec)
  have t': "current_timer demo_memory (demo_extractor\<lparr>last_timer_value := 5\<rparr>) = Some 5"
    by (simp add: current_timer_def demo_memory_def demo_extractor_def read_race_data_ptr_def
          read_longlong_def read_bytes_def le_uint_def to_signed_def read_timer_def read_int_def
          OFFSET_RACE_TIMER_def upt_rec)
  have b: "current_base demo_memory demo_extractor = 0x2000"
    by (simp add: current_base_def demo_memory_def demo_extractor_def read_race_data_ptr_def
          read_longlong_def read_bytes_def le_uint_def to_signed_def upt_rec)
  have g: "read_gear demo_memory demo_extractor 0x2000 = Some (PyInt 5)"
    by (simp add: read_gear_def demo_memory_def demo_extractor_def read_bytes_def
          le_uint_def to_signed_def read_int_def OFFSET_GEAR_def upt_rec)
  have l: "last_timer_value demo_extractor = - 1"
    by (simp add: demo_extractor_def)
  from get_snapshot_tick_gate [of demo_memory demo_extractor]
       get_snapshot_tick_gate [of demo_memory "demo_extractor\<lparr>last_timer_value := 5\<rparr>"]
  show ?thesis
    by (simp add: t t' b g l full_tier_keys_def reader_of_def)
qed

text \<open>
  Claim C8, as the spec states it: the key set of every snapshot contains
  \<^verbatim>\<open>rollover_state\<close>. The source names that key \<^verbatim>\<open>360_state\<close>, here in the
  snapshot of an extractor with no process attached.
\<close>

theorem get_snapshot_rollover_counterexample:
  "''rollover_state'' \<notin> set (map fst (fst (get_snapshot unmapped fresh_extractor)))
   \<and> ''360_state'' \<in> set (map fst (fst (get_snapshot unmapped fresh_extractor)))"
  by (simp add: get_snapshot_def Let_def split_beta populate_full_def light_snapshot_def
        update_keys)

text \<open>
  Claim C8, amended. Every snapshot has exactly the fifteen keys
  \<^verbatim>\<open>timer_value\<close>, \<^verbatim>\<open>race_completion_pct\<close>, \<^verbatim>\<open>velocity\<close>, \<^verbatim>\<open>car_angle\<close>, \<^verbatim>\<open>car_position\<close>,
  \<^verbatim>\<open>camera_angle\<close>, \<^verbatim>\<open>camera_position\<close>, \<^verbatim>\<open>checkpoint\<close>, \<^verbatim>\<open>nitro_bar_pct\<close>, \<^verbatim>\<open>nitro_state\<close>,
  \<^verbatim>\<open>drift_state\<close>, \<^verbatim>\<open>360_state\<close>, \<^verbatim>\<open>gear\<close>, \<^verbatim>\<open>engine_rpm\<close>, \<^verbatim>\<open>acceleration\<close>, in this
  order, whatever the process memory and the extractor; each value is a value or
  \<^verbatim>\<open>None\<close>.
\<close>

theorem get_snapshot_keys:
  "map fst (fst (get_snapshot mem st)) =
     [''timer_value'', ''race_completion_pct'', ''velocity'', ''car_angle'', ''car_position'',
      ''camera_angle'', ''camera_position'', ''checkpoint'', ''nitro_bar_pct'', ''nitro_state'',
      ''drift_state'', ''360_state'', ''gear'', ''engine_rpm'', ''acceleration'']"
  by (simp add: get_snapshot_def Let_def split_beta populate_full_def light_snapshot_def
        update_keys)


section \<open>Properties of the best-split recomputation\<close>





lemmas eval_best_splits =
  compute_best_splits_def region_block_def boundaries_def entry_at_def frames_in_region_def
  in_region_def split_timer_def List.map_filter_simps timed_def offset_time_def Let_def
  get_race_completion_def get_name_def

text \<open>
  Claim C1. The stored best splits are those the program stored for a first run,
  with 1000 as the time of the first region. The new run reaches the end of the
  first region at 900, which is less. The block of the first region is not the
  new run's frames: the old region is taken to be the three entries up to and
  with the first entry of the second region, its boundary timer is read as 0,
  and these three entries are kept. And a block of re-based frames need not start
  at 0: with two frames at the start boundary the timer subtracted is the later
  one's, and the first entry is below 0.
\<close>

theorem faster_first_region_keeps_old:
  "split_timer interp (frames_in_region faster_run 0 50) 50 = Inr (Some 900)
   \<and> frames_in_region scenario_old 0 50 = [entry_at 0 0, entry_at 1000 50, entry_at 0 50]
   \<and> split_timer interp (frames_in_region scenario_old 0 50) 50 = Inr (Some 0)
   \<and> region_block interp scenario_old faster_run (0, 50, ''Split 1'')
       = Inr [entry_at 0 0, entry_at 1000 50, entry_at 0 50]
   \<and> compute_best_splits interp [] [entry_at 5 0, entry_at 7 0, entry_at 100 50] []
       = Inr [entry_at (- 2) 0, entry_at 0 0, entry_at 93 50]"
  by (simp add: eval_best_splits scenario_old_def faster_run_def)

text \<open>
  Claim C2. In the scenario the recomputation does not compare 900 with 1000:
  the frame at progress 50 that opens the second region also lies in the first
  region, so both boundary timers of region 1 are 0, and the result carries six
  entries, among them the old run's 1000 at progress 50.
\<close>

theorem scenario_best_splits:
  "compute_best_splits interp scenario_old scenario_new one_split
     = Inr [entry_at 0 0, entry_at 900 50, entry_at 0 50,
            entry_at 1000 50, entry_at 0 50, entry_at 1200 100]
   \<and> split_timer interp (frames_in_region scenario_new 0 50) 50 = Inr (Some 0)
   \<and> split_timer interp (frames_in_region scenario_old 0 50) 50 = Inr (Some 0)"
  by (simp add: eval_best_splits scenario_old_def scenario_new_def one_split_def)

text \<open>
  The same happens when the old first region was the faster one (800 against
  900): the first region is replaced all the same, both boundary timers being 0.
\<close>

lemma slower_first_region_replaces_faster:
  "compute_best_splits interp
     [entry_at 0 0, entry_at 800 50, entry_at 0 50, entry_at 1200 100] scenario_new one_split
     = Inr [entry_at 0 0, entry_at 900 50, entry_at 0 50,
            entry_at 800 50, entry_at 0 50, entry_at 1200 100]"
  by (simp add: eval_best_splits scenario_new_def one_split_def)

text \<open>
  Claim C3. The best splits stored after a first run are changed by saving a run
  that is slower at both boundaries, and no region is replaced by a run that is
  faster at both boundaries.
\<close>

theorem slower_run_changes_best_splits:
  "compute_best_splits interp [] first_run one_split = Inr scenario_old
   \<and> save_race_data interp stored_fs stored_manager ''ghost.json'' slower_run
       = Inr (one_file (plain (Json (Object
                \<lparr>splits = Held one_split,
                 best_splits = Held [entry_at 0 0, entry_at 1000 50, entry_at 0 50,
                                     entry_at 1000 50, entry_at 0 50, entry_at 1200 100],
                 race_data = Held slower_run\<rparr>))),
              \<lparr>active_ghost = Some (Object
                \<lparr>splits = Held one_split,
                 best_splits = Held [entry_at 0 0, entry_at 1000 50, entry_at 0 50,
                                     entry_at 1000 50, entry_at 0 50, entry_at 1200 100],
                 race_data = Held slower_run\<rparr>),
               active_path = Some ''ghost.json''\<rparr>)
   \<and> compute_best_splits interp scenario_old faster_run one_split
       = Inr [entry_at 0 0, entry_at 1000 50, entry_at 0 50,
              entry_at 1000 50, entry_at 0 50, entry_at 1200 100]"
proof -
  have a: "compute_best_splits interp [] first_run one_split = Inr scenario_old"
    by (simp add: eval_best_splits scenario_old_def first_run_def one_split_def)
  have b: "compute_best_splits interp scenario_old slower_run one_split
             = Inr [entry_at 0 0, entry_at 1000 50, entry_at 0 50,
                    entry_at 1000 50, entry_at 0 50, entry_at 1200 100]"
    by (simp add: eval_best_splits scenario_old_def slower_run_def one_split_def)
  have c: "compute_best_splits interp scenario_old faster_run one_split
             = Inr [entry_at 0 0, entry_at 1000 50, entry_at 0 50,
                    entry_at 1000 50, entry_at 0 50, entry_at 1200 100]"
    by (simp add: eval_best_splits scenario_old_def faster_run_def one_split_def)
  have d: "load_or_initialise (files stored_fs ''ghost.json'') = Inr (Object stored_doc)"
    by (simp add: stored_fs_def one_file_def plain_def read_json_def)
  have s: "save_race_data interp stored_fs stored_manager ''ghost.json'' slower_run
       = Inr (one_file (plain (Json (Object
                \<lparr>splits = Held one_split,
                 best_splits = Held [entry_at 0 0, entry_at 1000 50, entry_at 0 50,
                                     entry_at 1000 50, entry_at 0 50, entry_at 1200 100],
                 race_data = Held slower_run\<rparr>))),
              \<lparr>active_ghost = Some (Object
                \<lparr>splits = Held one_split,
                 best_splits = Held [entry_at 0 0, entry_at 1000 50, entry_at 0 50,
                                     entry_at 1000 50, entry_at 0 50, entry_at 1200 100],
                 race_data = Held slower_run\<rparr>),
               active_path = Some ''ghost.json''\<rparr>)"
    unfolding save_race_data_def d
    by (simp add: Let_def stored_doc_def recompute_def b write_json_def
          stored_fs_def one_file_def plain_def stored_manager_def fun_eq_iff)
  from a s c show ?thesis by simp
qed

section \<open>Properties of the ghost-timer interpolation\<close>







lemma sorted_hd_le: "sorted (map snd xs) \<Longrightarrow> x \<in> set xs \<Longrightarrow> snd (hd xs) \<le> snd x"
  by (cases xs) auto






section \<open>Properties of loading and saving\<close>

lemma check_required_Object:
  "check_required (Object g) [''splits'', ''best_splits'', ''race_data''] =
     (if splits g = Absent then Some (MissingKey ''splits'')
      else if best_splits g = Absent then Some (MissingKey ''best_splits'')
      else if race_data g = Absent then Some (MissingKey ''race_data'')
      else None)"
  by (simp add: has_key_def)






text \<open>
  A document whose \<^verbatim>\<open>race_data\<close> is null passes the key check, becomes the active
  ghost, and then makes \<^verbatim>\<open>load_ghost\<close> raise \<^verbatim>\<open>TypeError\<close>; a file that holds a
  number raises \<^verbatim>\<open>TypeError\<close> in the key check.
\<close>

lemma load_ghost_type_errors:
  "load_ghost (one_file (plain (Json (Object (stored_doc\<lparr>race_data := Null\<rparr>)))))
     fresh_manager ''ghost.json''
     = (Inl TypeError,
        \<lparr>active_ghost = Some (Object (stored_doc\<lparr>race_data := Null\<rparr>)),
         active_path = Some ''ghost.json''\<rparr>)
   \<and> load_ghost (one_file (plain (Json Scalar))) fresh_manager ''ghost.json''
       = (Inl TypeError, fresh_manager)"
  by (simp add: load_ghost_def one_file_def plain_def read_json_def has_key_def stored_doc_def
        fresh_manager_def)




lemma split_timer_total:
  "\<forall>f0 f1 at_pct. \<exists>v. interp f0 f1 at_pct = Inr v \<Longrightarrow> \<exists>r. split_timer interp fs at_pct = Inr r"
proof -
  assume t: "\<forall>f0 f1 at_pct. \<exists>v. interp f0 f1 at_pct = Inr v"
  have "\<exists>r. (case interp f0 f1 at_pct of Inl e \<Rightarrow> Inl e | Inr v \<Rightarrow> Inr (Some v)) = Inr r"
    for f0 f1
    using t by (metis sum.simps(6))
  then show ?thesis
    by (simp add: split_timer_def Let_def)
qed

lemma offset_time_total:
  "\<forall>f0 f1 at_pct. \<exists>v. interp f0 f1 at_pct = Inr v \<Longrightarrow> \<exists>r. offset_time interp fs at_pct = Inr r"
  using split_timer_total [of interp fs at_pct]
  by (auto simp add: offset_time_def split: option.splits)

lemma region_loop_total:
  "\<forall>f0 f1 at_pct. \<exists>v. interp f0 f1 at_pct = Inr v
   \<Longrightarrow> \<exists>r. region_loop interp old new bs acc = Inr r"
proof (induction bs arbitrary: acc)
  case Nil
  then show ?case by simp
next
  case (Cons b bs)
  obtain s e n where b: "b = (s, e, n)" by (cases b)
  from split_timer_total [OF Cons.prems] obtain nt where
    nt: "split_timer interp (frames_in_region new s e) e = Inr nt" by blast
  from split_timer_total [OF Cons.prems] obtain ot where
    ot: "split_timer interp (frames_in_region old s e) e = Inr ot" by blast
  from offset_time_total [OF Cons.prems] obtain off where
    off: "offset_time interp (frames_in_region new s e) s = Inr off" by blast
  show ?case
    using Cons.IH [OF Cons.prems]
    by (simp add: b Let_def nt ot off split: option.splits)
qed

lemma compute_best_splits_total:
  "\<forall>f0 f1 at_pct. \<exists>v. interp f0 f1 at_pct = Inr v
   \<Longrightarrow> \<exists>best. compute_best_splits interp old new cfg = Inr best"
  by (simp add: compute_best_splits_def region_loop_total)

text \<open>
  Claim C10, as stated: for every existing file that cannot be read or parsed as
  JSON, \<^verbatim>\<open>save_race_data\<close> does not raise and overwrites the file. A file whose
  bytes are not UTF-8 cannot be parsed; reading it raises \<^verbatim>\<open>UnicodeDecodeError\<close>,
  which is neither of the two exceptions caught. And for a file that is not JSON
  and cannot be written, the write at the end raises \<^verbatim>\<open>OSError\<close>.
\<close>

theorem save_race_data_raises_counterexample:
  "files binary_fs ''ghost.json'' = Some (plain Undecodable)
   \<and> save_race_data exact_interp_int binary_fs fresh_manager ''ghost.json'' first_run
       = Inl UnicodeDecodeError
   \<and> files read_only_corrupt_fs ''ghost.json''
       = Some \<lparr>readable = True, writable = False, content = NotJson\<rparr>
   \<and> save_race_data exact_interp_int read_only_corrupt_fs fresh_manager ''ghost.json'' first_run
       = Inl OSError"
proof -
  have b: "compute_best_splits exact_interp_int [] first_run []
             = Inr [entry_at 0 0, entry_at 1000 50, entry_at 2200 100]"
    by (simp add: eval_best_splits first_run_def)
  have "save_race_data exact_interp_int binary_fs fresh_manager ''ghost.json'' first_run
       = Inl UnicodeDecodeError"
    by (simp add: binary_fs_def one_file_def plain_def save_race_data_def read_json_def)
  moreover
  have "save_race_data exact_interp_int read_only_corrupt_fs fresh_manager ''ghost.json'' first_run
       = Inl OSError"
    by (simp add: read_only_corrupt_fs_def one_file_def save_race_data_def read_json_def
          EMPTY_GHOST_def recompute_def b Let_def write_json_def)
  ultimately show ?thesis
    by (simp add: binary_fs_def read_only_corrupt_fs_def one_file_def)
qed

text \<open>
  Claim C10, amended. For every path whose file exists, can be written, and
  cannot be opened for reading (\<^verbatim>\<open>OSError\<close>) or is not JSON (\<^verbatim>\<open>JSONDecodeError\<close>),
  \<^verbatim>\<open>save_race_data\<close> does not surface the corruption: it starts from the empty
  ghost, recomputes the best splits from the new run against no old best splits
  and no splits, and, unless the float arithmetic of that recomputation raises,
  overwrites the file with empty splits, these best splits and the new run as
  \<^verbatim>\<open>race_data\<close>, which also becomes the active ghost. When the float arithmetic
  raises nothing, \<^verbatim>\<open>save_race_data\<close> raises nothing.
\<close>

theorem save_race_data_resets_corrupt:
  assumes "files fs p = Some f" and "\<not> readable f \<or> content f = NotJson" and "writable f"
  shows "save_race_data interp fs m p frames =
           (case compute_best_splits interp [] frames [] of
              Inl e \<Rightarrow> Inl e
            | Inr best \<Rightarrow>
                Inr (fs\<lparr>files := (files fs)(p \<mapsto>
                          f\<lparr>content := Json (Object \<lparr>splits = Held [], best_splits = Held best,
                                                      race_data = Held frames\<rparr>)\<rparr>)\<rparr>,
                     m\<lparr>active_ghost := Some (Object \<lparr>splits = Held [], best_splits = Held best,
                                                       race_data = Held frames\<rparr>),
                       active_path := Some p\<rparr>))
         \<and> ((\<forall>f0 f1 at_pct. \<exists>v. interp f0 f1 at_pct = Inr v)
              \<longrightarrow> (\<exists>fs' m'. save_race_data interp fs m p frames = Inr (fs', m')))"
proof -
  have l: "load_or_initialise (files fs p) = Inr (Object EMPTY_GHOST)"
    using assms(1,2) by (auto simp add: read_json_def)
  have s: "save_race_data interp fs m p frames =
           (case compute_best_splits interp [] frames [] of
              Inl e \<Rightarrow> Inl e
            | Inr best \<Rightarrow>
                Inr (fs\<lparr>files := (files fs)(p \<mapsto>
                          f\<lparr>content := Json (Object \<lparr>splits = Held [], best_splits = Held best,
                                                      race_data = Held frames\<rparr>)\<rparr>)\<rparr>,
                     m\<lparr>active_ghost := Some (Object \<lparr>splits = Held [], best_splits = Held best,
                                                       race_data = Held frames\<rparr>),
                       active_path := Some p\<rparr>))"
    unfolding save_race_data_def l
    using assms(1,3)
    by (simp add: EMPTY_GHOST_def recompute_def Let_def write_json_def split: sum.splits)
  have "\<exists>fs' m'. save_race_data interp fs m p frames = Inr (fs', m')"
    if "\<forall>f0 f1 at_pct. \<exists>v. interp f0 f1 at_pct = Inr v"
  proof -
    from compute_best_splits_total [OF that] obtain best where
      "compute_best_splits interp [] frames [] = Inr best" by blast
    then show ?thesis by (simp add: s)
  qed
  with s show ?thesis by blast
qed

theorem save_race_data_resets_corrupt_witness:
  "files corrupt_fs ''ghost.json'' = Some (plain NotJson)
   \<and> content (plain NotJson) = NotJson \<and> writable (plain NotJson)
   \<and> save_race_data exact_interp_int corrupt_fs stored_manager ''ghost.json'' first_run =
         Inr (one_file (plain (Json (Object
                \<lparr>splits = Held [],
                 best_splits = Held [entry_at 0 0, entry_at 1000 50, entry_at 2200 100],
                 race_data = Held first_run\<rparr>))),
              \<lparr>active_ghost = Some (Object
                \<lparr>splits = Held [],
                 best_splits = Held [entry_at 0 0, entry_at 1000 50, entry_at 2200 100],
                 race_data = Held first_run\<rparr>),
               active_path = Some ''ghost.json''\<rparr>)
   \<and> files write_only_fs ''ghost.json''
       = Some \<lparr>readable = False, writable = True, content = Json (Object stored_doc)\<rparr>
   \<and> (\<exists>fs' m'. save_race_data exact_interp_int write_only_fs stored_manager ''ghost.json''
                  first_run = Inr (fs', m'))"
proof -
  have f: "files corrupt_fs ''ghost.json'' = Some (plain NotJson)"
    by (simp add: corrupt_fs_def one_file_def)
  have c: "\<not> readable (plain NotJson) \<or> content (plain NotJson) = NotJson"
    and w: "writable (plain NotJson)"
    by (simp_all add: plain_def)
  have b: "compute_best_splits exact_interp_int [] first_run []
             = Inr [entry_at 0 0, entry_at 1000 50, entry_at 2200 100]"
    by (simp add: eval_best_splits first_run_def)
  from save_race_data_resets_corrupt
         [OF f c w, where interp = exact_interp_int and m = stored_manager and frames = first_run]
  have s: "save_race_data exact_interp_int corrupt_fs stored_manager ''ghost.json'' first_run =
         Inr (one_file (plain (Json (Object
                \<lparr>splits = Held [],
                 best_splits = Held [entry_at 0 0, entry_at 1000 50, entry_at 2200 100],
                 race_data = Held first_run\<rparr>))),
              \<lparr>active_ghost = Some (Object
                \<lparr>splits = Held [],
                 best_splits = Held [entry_at 0 0, entry_at 1000 50, entry_at 2200 100],
                 race_data = Held first_run\<rparr>),
               active_path = Some ''ghost.json''\<rparr>)"
    by (simp add: b corrupt_fs_def one_file_def plain_def stored_manager_def fun_eq_iff)
  have f2: "files write_only_fs ''ghost.json''
       = Some \<lparr>readable = False, writable = True, content = Json (Object stored_doc)\<rparr>"
    by (simp add: write_only_fs_def one_file_def)
  have t: "\<forall>f0 f1 at_pct. \<exists>v. exact_interp_int f0 f1 at_pct = Inr v"
    by (simp add: exact_interp_int_def)
  have c2: "\<not> readable \<lparr>readable = False, writable = True, content = Json (Object stored_doc)\<rparr>
            \<or> content \<lparr>readable = False, writable = True, content = Json (Object stored_doc)\<rparr>
                = NotJson"
    and w2: "writable \<lparr>readable = False, writable = True, content = Json (Object stored_doc)\<rparr>"
    by simp_all
  from save_race_data_resets_corrupt
         [OF f2 c2 w2, where interp = exact_interp_int and m = stored_manager
            and frames = first_run] t
  have s2: "\<exists>fs' m'. save_race_data exact_interp_int write_only_fs stored_manager ''ghost.json''
                  first_run = Inr (fs', m')"
    by blast
  from f c w s f2 s2 show ?thesis
    by (simp add: plain_def)
qed




section \<open>Properties of the trampoline injection\<close>

lemma length_le_bytes32: "length (le_bytes32 w) = 4"
  by (simp add: le_bytes32_def)

lemma inject_allocation_denied:
  "alloc_result t = 0 \<Longrightarrow> inject_pointer_capture t aob original_bytes = (Inl MemoryError, t)"
  by (simp add: inject_pointer_capture_def)

text \<open>
  Claim C9. The target process grants the allocation and denies every write and
  every protection change. The injection raises nothing: it returns the slot
  address 0x20078 and leaves the process as it was, so that the slot, which was
  never zeroed, does not read 0.
\<close>

theorem inject_ignores_denied_writes:
  "inject_pointer_capture denying_target 0x30000 AOB_RACE_TIMER = (Inr 0x20078, denying_target)
   \<and> read_longlong (memory_of denying_target) 0x20078 \<noteq> Some 0"
  by (simp add: inject_pointer_capture_def denying_target_def AOB_RACE_TIMER_def pack_i_def
        write_process_memory_def Let_def length_le_bytes32 read_longlong_def read_bytes_def
        le_uint_def to_signed_def upt_rec)


end
